theory Spec2Isabelle
  imports Complex_Main
begin

section \<open>Python strings\<close>

text \<open>
  A Python \<open>str\<close> is modelled as a \<open>string\<close> whose characters are the code points
  below 256. \<open>is_space\<close> lists the code points of that range that \<open>str.strip()\<close> and
  \<open>str.split()\<close> treat as whitespace; \<open>lower_char\<close> is \<open>str.lower()\<close> on one
  character (the upper-case letters of that range are 32 below their lower-case forms).
\<close>

definition is_space :: "char \<Rightarrow> bool" where
  "is_space c = (c \<in> set [CHR 0x09, CHR 0x0A, CHR 0x0B, CHR 0x0C, CHR 0x0D,
      CHR 0x1C, CHR 0x1D, CHR 0x1E, CHR 0x1F, CHR 0x20, CHR 0x85, CHR 0xA0])"

definition is_upper :: "char \<Rightarrow> bool" where
  "is_upper c =
     (let n = (of_char c :: nat)
      in (65 \<le> n \<and> n \<le> 90) \<or> (192 \<le> n \<and> n \<le> 214) \<or> (216 \<le> n \<and> n \<le> 222))"

fun lower_char :: "char \<Rightarrow> char" where
  "lower_char (Char b0 b1 b2 b3 b4 b5 b6 b7) =
     (if is_upper (Char b0 b1 b2 b3 b4 b5 b6 b7) then Char b0 b1 b2 b3 b4 True b6 b7
      else Char b0 b1 b2 b3 b4 b5 b6 b7)"

definition lower :: "string \<Rightarrow> string" where
  "lower s = map lower_char s"

definition strip :: "string \<Rightarrow> string" where
  "strip s = rev (dropWhile is_space (rev (dropWhile is_space s)))"

text \<open>\<open>split_where sep s\<close> cuts \<open>s\<close> at every character satisfying \<open>sep\<close>, keeping empty
  fields, as \<open>s.split(',')\<close> does for the separator \<open>','\<close>.\<close>

fun split_where :: "(char \<Rightarrow> bool) \<Rightarrow> string \<Rightarrow> string list" where
  "split_where sep [] = [[]]"
| "split_where sep (c # cs) =
     (if sep c then [] # split_where sep cs
      else (case split_where sep cs of
              [] \<Rightarrow> [[c]]
            | w # ws \<Rightarrow> (c # w) # ws))"

definition split_comma :: "string \<Rightarrow> string list" where
  "split_comma s = split_where (\<lambda>c. c = CHR '','') s"

text \<open>\<open>s.split()\<close>: the maximal runs of non-whitespace characters.\<close>

definition split_ws :: "string \<Rightarrow> string list" where
  "split_ws s = filter (\<lambda>w. w \<noteq> []) (split_where is_space s)"

text \<open>\<open>needle in hay\<close> for two strings.\<close>

fun substring :: "string \<Rightarrow> string \<Rightarrow> bool" where
  "substring needle [] = (needle = [])"
| "substring needle (c # cs) =
     (if take (length needle) (c # cs) = needle then True else substring needle cs)"

section \<open>JSON values and the Python operations applied to them\<close>

text \<open>
  \<open>response.json()\<close> returns an arbitrary JSON value: \<open>None\<close>, a bool, a number, a
  \<open>str\<close>, a list or a dict (here the list of its items). The source applies \<open>in\<close>,
  subscription, \<open>.get\<close> and \<open>.lower()\<close> to such values without checking their
  type; each operation is modelled with the exception Python raises on the wrong type.
\<close>

datatype exc = TypeError | KeyError | AttributeError | IndexError | ValueError
  | NotImplementedError | OSError | UnicodeError | RecursionError

datatype json = JNull | JBool bool | JNum rat | JStr string | JArr "json list"
  | JObj "(string \<times> json) list"

definition bindE :: "exc + 'a \<Rightarrow> ('a \<Rightarrow> exc + 'b) \<Rightarrow> exc + 'b" where
  "bindE m f = (case m of Inl e \<Rightarrow> Inl e | Inr x \<Rightarrow> f x)"

fun truthy :: "json \<Rightarrow> bool" where
  "truthy JNull = False"
| "truthy (JBool b) = b"
| "truthy (JNum n) = (n \<noteq> 0)"
| "truthy (JStr s) = (s \<noteq> [])"
| "truthy (JArr xs) = (xs \<noteq> [])"
| "truthy (JObj kvs) = (kvs \<noteq> [])"

text \<open>\<open>key in data\<close>\<close>

fun py_contains :: "string \<Rightarrow> json \<Rightarrow> exc + bool" where
  "py_contains k (JObj kvs) = Inr (map_of kvs k \<noteq> None)"
| "py_contains k (JArr xs) = Inr (JStr k \<in> set xs)"
| "py_contains k (JStr s) = Inr (substring k s)"
| "py_contains k JNull = Inl TypeError"
| "py_contains k (JBool b) = Inl TypeError"
| "py_contains k (JNum n) = Inl TypeError"

text \<open>\<open>data[key]\<close> for a \<open>str\<close> key\<close>

fun py_getitem :: "json \<Rightarrow> string \<Rightarrow> exc + json" where
  "py_getitem (JObj kvs) k = (case map_of kvs k of None \<Rightarrow> Inl KeyError | Some v \<Rightarrow> Inr v)"
| "py_getitem (JArr xs) k = Inl TypeError"
| "py_getitem (JStr s) k = Inl TypeError"
| "py_getitem JNull k = Inl TypeError"
| "py_getitem (JBool b) k = Inl TypeError"
| "py_getitem (JNum n) k = Inl TypeError"

text \<open>\<open>x[0]\<close>; no dict decoded from JSON has the key \<open>0\<close>.\<close>

fun py_index0 :: "json \<Rightarrow> exc + json" where
  "py_index0 (JArr []) = Inl IndexError"
| "py_index0 (JArr (x # xs)) = Inr x"
| "py_index0 (JStr []) = Inl IndexError"
| "py_index0 (JStr (c # cs)) = Inr (JStr [c])"
| "py_index0 (JObj kvs) = Inl KeyError"
| "py_index0 JNull = Inl TypeError"
| "py_index0 (JBool b) = Inl TypeError"
| "py_index0 (JNum n) = Inl TypeError"

text \<open>\<open>x.get(key, default)\<close>: only a dict has the method.\<close>

fun py_get :: "json \<Rightarrow> string \<Rightarrow> json \<Rightarrow> exc + json" where
  "py_get (JObj kvs) k d = Inr (case map_of kvs k of None \<Rightarrow> d | Some v \<Rightarrow> v)"
| "py_get (JArr xs) k d = Inl AttributeError"
| "py_get (JStr s) k d = Inl AttributeError"
| "py_get JNull k d = Inl AttributeError"
| "py_get (JBool b) k d = Inl AttributeError"
| "py_get (JNum n) k d = Inl AttributeError"

text \<open>\<open>x.lower()\<close>: only a \<open>str\<close> has the method.\<close>

fun py_lower :: "json \<Rightarrow> exc + string" where
  "py_lower (JStr s) = Inr (lower s)"
| "py_lower (JArr xs) = Inl AttributeError"
| "py_lower (JObj kvs) = Inl AttributeError"
| "py_lower JNull = Inl AttributeError"
| "py_lower (JBool b) = Inl AttributeError"
| "py_lower (JNum n) = Inl AttributeError"

section \<open>The world outside the script\<close>

text \<open>
  A path is the list of its segments from the root. \<open>staged\<close> is the set of files the
  transfer tools write and \<open>unlink\<close> removes; \<open>trace\<close> records, in order, every call
  the script makes to the outside and the tally line it prints. The other log lines
  have no effect on any result and are not modelled; printing is taken to succeed.
\<close>

type_synonym path = "string list"

datatype event =
    HttpGet string "string option"
  | RunAria2c bool json string
  | RunSha256sum path
  | Unlink path
  | RunHfCli bool string "string option"
  | RunDu path
  | LogTally string nat nat

record state =
  staged :: "path set"
  trace :: "event list"

text \<open>
  \<open>session.get\<close> raises a \<open>requests.RequestException\<close> (timeout, connection
  error, retries exhausted), raises an exception of another class, or returns a response
  with a status code and a body. \<open>response.json()\<close> decodes the body, rejects it
  with \<open>requests.JSONDecodeError\<close> (a \<open>RequestException\<close>), or raises an
  exception of another class.
\<close>

datatype body = NotJson | DecodeRaised exc | Json json

datatype http_outcome = RequestFailed | GetRaised exc | Response nat body

text \<open>
  \<open>subprocess.run\<close> raises before the program has run (an \<open>OSError\<close> when it
  cannot be started, a \<open>ValueError\<close> when an argument holds a NUL character), or
  the program exits with a return code and its standard output.
\<close>

datatype proc_outcome = RunRaised exc | Exited int string

text \<open>The tree under the models directory: a file or a directory has a name, a
  directory has entries. The directory itself may be missing or unreadable.\<close>

datatype fs_node = File string | Dir string "fs_node list"

datatype models_root = NoDir | Unreadable | Root "fs_node list"

text \<open>
  The environment answers every outside call. Each answer may depend on the state at
  the moment of the call, and so on everything that happened before. \<open>rglob_other\<close>
  stands for what \<open>Path.rglob\<close> yields for the patterns whose meaning is not modelled
  below (several segments, \<open>.\<close>, \<open>..\<close>, \<open>**\<close>, an empty character range).
  \<open>unlink\<close> is the exception \<open>Path.unlink(missing_ok=True)\<close> raises, if any: none
  for a regular file or a missing one, an \<open>OSError\<close> for a directory or a refused
  permission.
\<close>

record env =
  http_get :: "state \<Rightarrow> string \<Rightarrow> string option \<Rightarrow> http_outcome"
  models_dir :: "state \<Rightarrow> models_root"
  rglob_other :: "state \<Rightarrow> string \<Rightarrow> exc + fs_node list"
  aria2c :: "state \<Rightarrow> bool \<Rightarrow> json \<Rightarrow> string \<Rightarrow> proc_outcome \<times> path set"
  sha256sum :: "state \<Rightarrow> path \<Rightarrow> proc_outcome"
  hf_cli :: "state \<Rightarrow> bool \<Rightarrow> string \<Rightarrow> string option \<Rightarrow> proc_outcome \<times> path set"
  unlink :: "state \<Rightarrow> path \<Rightarrow> exc option"

definition emit :: "event \<Rightarrow> state \<Rightarrow> state" where
  "emit e st = st\<lparr>trace := trace st @ [e]\<rparr>"

section \<open>\<open>get_civitai_model_info\<close>\<close>

record model_info =
  filename :: json
  download_url :: string
  hash :: string

definition api_url :: "string \<Rightarrow> string" where
  "api_url model_id = ''https://civitai.com/api/v1/model-versions/'' @ model_id"

definition model_url :: "string \<Rightarrow> string" where
  "model_url model_id =
     ''https://civitai.com/api/download/models/'' @ model_id @ ''?type=Model&format=SafeTensor''"

text \<open>The \<open>Authorization\<close> header: \<open>if token:\<close> holds for a non-empty string.\<close>

definition auth_header :: "string option \<Rightarrow> string option" where
  "auth_header token =
     (case token of
        None \<Rightarrow> None
      | Some t \<Rightarrow> if t \<noteq> [] then Some (''Bearer '' @ t) else None)"

text \<open>\<open>if 'files' in data and data['files']: file_info = data['files'][0]\<close>\<close>

definition first_file :: "json \<Rightarrow> exc + json option" where
  "first_file data =
     bindE (py_contains ''files'' data) (\<lambda>present.
       if \<not> present then Inr None
       else bindE (py_getitem data ''files'') (\<lambda>files.
         if \<not> truthy files then Inr None
         else bindE (py_index0 files) (\<lambda>file_info. Inr (Some file_info))))"

text \<open>The dict the function returns, its three values computed in the order written.\<close>

definition make_info :: "string \<Rightarrow> json \<Rightarrow> exc + model_info" where
  "make_info model_id file_info =
     bindE (py_get file_info ''name'' JNull) (\<lambda>name.
     bindE (py_get file_info ''hashes'' (JObj [])) (\<lambda>hashes.
     bindE (py_get hashes ''SHA256'' (JStr [])) (\<lambda>sha.
     bindE (py_lower sha) (\<lambda>h.
       Inr \<lparr>filename = name, download_url = model_url model_id, hash = h\<rparr>))))"

text \<open>
  Only \<open>requests.RequestException\<close> is caught: the failed request, the status
  \<open>raise_for_status\<close> rejects (400 to 599) and the body that is not JSON give \<open>None\<close>;
  any other exception leaves the function.
\<close>

definition get_civitai_model_info ::
  "env \<Rightarrow> state \<Rightarrow> string \<Rightarrow> string option \<Rightarrow> exc + (state \<times> model_info option)" where
  "get_civitai_model_info ev st model_id token =
     (let st1 = emit (HttpGet (api_url model_id) (auth_header token)) st
      in case http_get ev st (api_url model_id) (auth_header token) of
           RequestFailed \<Rightarrow> Inr (st1, None)
         | GetRaised e \<Rightarrow> Inl e
         | Response status body \<Rightarrow>
             if 400 \<le> status \<and> status < 600 then Inr (st1, None)
             else if status = 200 then
               (case body of
                  NotJson \<Rightarrow> Inr (st1, None)
                | DecodeRaised e \<Rightarrow> Inl e
                | Json data \<Rightarrow>
                    bindE (first_file data) (\<lambda>found.
                      case found of
                        None \<Rightarrow> Inr (st1, None)
                      | Some file_info \<Rightarrow>
                          bindE (make_info model_id file_info) (\<lambda>info.
                            Inr (st1, Some info))))
             else Inr (st1, None))"

section \<open>\<open>_file_exists_in_models\<close>\<close>

text \<open>
  \<open>models_dir.rglob(filename)\<close> reads \<open>filename\<close> as a glob pattern. For a pattern of
  one segment, the names it matches are those of \<open>fnmatch\<close>: \<open>*\<close> matches any run of
  characters, \<open>?\<close> any one character, \<open>[seq]\<close> one character of \<open>seq\<close>, \<open>[!seq]\<close>
  one character not in \<open>seq\<close>, where \<open>seq\<close> lists characters and ranges \<open>a-b\<close>;
  a \<open>]\<close> directly after \<open>[\<close> or \<open>[!\<close> belongs to \<open>seq\<close>, and a \<open>[\<close> that no
  \<open>]\<close> closes stands for itself. Every other character matches itself.
\<close>

datatype glob_tok = GStar | GAny | GLit char | GClass bool "(char \<times> char) list"

fun class_items :: "string \<Rightarrow> (char \<times> char) list" where
  "class_items (a # m # b # r) =
     (if m = CHR ''-'' then (a, b) # class_items r else (a, a) # class_items (m # b # r))"
| "class_items (a # r) = (a, a) # class_items r"
| "class_items [] = []"

text \<open>\<open>bracket r\<close> reads the text after a \<open>[\<close>: whether the class is negated, its
  items, and the text after the closing \<open>]\<close>; \<open>None\<close> when nothing closes it.\<close>

definition bracket :: "string \<Rightarrow> (bool \<times> (char \<times> char) list \<times> string) option" where
  "bracket r =
     (let neg = (case r of [] \<Rightarrow> False | c # _ \<Rightarrow> c = CHR ''!'');
          r1 = (if neg then tl r else r);
          lead = (case r1 of [] \<Rightarrow> False | c # _ \<Rightarrow> c = CHR '']'');
          r2 = (if lead then tl r1 else r1)
      in if CHR '']'' \<in> set r2
         then Some (neg,
                class_items ((if lead then '']'' else []) @ takeWhile (\<lambda>c. c \<noteq> CHR '']'') r2),
                tl (dropWhile (\<lambda>c. c \<noteq> CHR '']'') r2))
         else None)"

lemma bracket_rest_length:
  "bracket r = Some (neg, items, rest) \<Longrightarrow> length rest \<le> length r"
proof -
  assume b: "bracket r = Some (neg, items, rest)"
  define r1 where "r1 = (if (case r of [] \<Rightarrow> False | c # _ \<Rightarrow> c = CHR ''!'') then tl r else r)"
  define r2 where "r2 = (if (case r1 of [] \<Rightarrow> False | c # _ \<Rightarrow> c = CHR '']'') then tl r1 else r1)"
  have "rest = tl (dropWhile (\<lambda>c. c \<noteq> CHR '']'') r2)"
    using b unfolding bracket_def r1_def r2_def by (simp add: Let_def split: if_splits)
  then have "length rest \<le> length r2"
    using length_dropWhile_le [of "\<lambda>c. c \<noteq> CHR '']''" r2] by simp
  moreover have "length r2 \<le> length r1" by (simp add: r2_def)
  moreover have "length r1 \<le> length r" by (simp add: r1_def)
  ultimately show ?thesis by linarith
qed

function glob_tokens :: "string \<Rightarrow> glob_tok list" where
  "glob_tokens [] = []"
| "glob_tokens (c # r) =
     (if c = CHR ''*'' then GStar # glob_tokens r
      else if c = CHR ''?'' then GAny # glob_tokens r
      else if c = CHR ''['' then
        (case bracket r of
           None \<Rightarrow> GLit c # glob_tokens r
         | Some (neg, items, rest) \<Rightarrow> GClass neg items # glob_tokens rest)
      else GLit c # glob_tokens r)"
  by pat_completeness auto
termination
  by (relation "measure length") (auto dest: bracket_rest_length)

definition in_class :: "bool \<Rightarrow> (char \<times> char) list \<Rightarrow> char \<Rightarrow> bool" where
  "in_class neg items c =
     (list_ex (\<lambda>(lo, hi). (of_char lo :: nat) \<le> of_char c \<and> (of_char c :: nat) \<le> of_char hi) items
      \<noteq> neg)"

fun glob_match :: "glob_tok list \<Rightarrow> string \<Rightarrow> bool" where
  "glob_match [] s = (s = [])"
| "glob_match (GStar # ts) [] = glob_match ts []"
| "glob_match (GStar # ts) (d # r) = (if glob_match ts (d # r) then True else glob_match (GStar # ts) r)"
| "glob_match (GAny # ts) [] = False"
| "glob_match (GAny # ts) (d # r) = glob_match ts r"
| "glob_match (GLit c # ts) [] = False"
| "glob_match (GLit c # ts) (d # r) = (d = c \<and> glob_match ts r)"
| "glob_match (GClass neg items # ts) [] = False"
| "glob_match (GClass neg items # ts) (d # r) = (in_class neg items d \<and> glob_match ts r)"

definition fnmatch :: "string \<Rightarrow> string \<Rightarrow> bool" where
  "fnmatch name pattern = glob_match (glob_tokens pattern) name"

text \<open>The patterns whose meaning is given by \<open>fnmatch\<close> on the names of the tree: one
  segment that is not \<open>.\<close> or \<open>..\<close>, without \<open>**\<close> and without an empty range.\<close>

fun proper_tok :: "glob_tok \<Rightarrow> bool" where
  "proper_tok (GClass neg items) =
     list_all (\<lambda>(lo, hi). (of_char lo :: nat) \<le> of_char hi) items"
| "proper_tok t = True"

definition ordinary_pattern :: "string \<Rightarrow> bool" where
  "ordinary_pattern p =
     (CHR ''/'' \<notin> set p \<and> p \<noteq> ''.'' \<and> p \<noteq> ''..'' \<and> \<not> substring ''**'' p
      \<and> list_all proper_tok (glob_tokens p))"

fun node_name :: "fs_node \<Rightarrow> string" where
  "node_name (File n) = n"
| "node_name (Dir n entries) = n"

fun is_file :: "fs_node \<Rightarrow> bool" where
  "is_file (File n) = True"
| "is_file (Dir n entries) = False"

text \<open>Every file and directory below a directory, at any depth.\<close>

fun below :: "fs_node \<Rightarrow> fs_node list" where
  "below (File n) = []"
| "below (Dir n entries) = concat (map (\<lambda>c. c # below c) entries)"

definition tree_nodes :: "fs_node list \<Rightarrow> fs_node list" where
  "tree_nodes entries = concat (map (\<lambda>c. c # below c) entries)"

text \<open>
  \<open>rglob\<close> rejects the empty pattern and the absolute one, yields nothing under a
  missing directory, and fails under one it may not access.
\<close>

definition rglob :: "env \<Rightarrow> state \<Rightarrow> string \<Rightarrow> exc + fs_node list" where
  "rglob ev st pattern =
     (if pattern = [] then Inl ValueError
      else if hd pattern = CHR ''/'' then Inl NotImplementedError
      else case models_dir ev st of
             NoDir \<Rightarrow> Inr []
           | Unreadable \<Rightarrow> Inl OSError
           | Root entries \<Rightarrow>
               if ordinary_pattern pattern
               then Inr (filter (\<lambda>n. fnmatch (node_name n) pattern) (tree_nodes entries))
               else rglob_other ev st pattern)"

text \<open>\<open>for path in ...: if path.is_file(): return True\<close>\<close>

fun any_file :: "fs_node list \<Rightarrow> bool" where
  "any_file [] = False"
| "any_file (n # ns) = (if is_file n then True else any_file ns)"

text \<open>The bare \<open>except\<close> turns every exception into \<open>False\<close>, also the \<open>TypeError\<close>
  of a \<open>filename\<close> that is not a \<open>str\<close>.\<close>

definition file_exists_in_models :: "env \<Rightarrow> state \<Rightarrow> json \<Rightarrow> bool" where
  "file_exists_in_models ev st fname =
     (case fname of
        JStr pattern \<Rightarrow>
          (case rglob ev st pattern of
             Inl e \<Rightarrow> False
           | Inr found \<Rightarrow> any_file found)
      | _ \<Rightarrow> False)"

section \<open>\<open>_verify_checksum\<close>\<close>

text \<open>The bare \<open>except\<close> covers whatever \<open>subprocess.run\<close> raises, the non-zero
  exit (\<open>check=True\<close>) and the \<open>IndexError\<close> of \<open>split()[0]\<close> on blank output.\<close>

definition verify_checksum :: "env \<Rightarrow> state \<Rightarrow> path \<Rightarrow> string \<Rightarrow> state \<times> bool" where
  "verify_checksum ev st file_path expected_hash =
     (let st1 = emit (RunSha256sum file_path) st
      in case sha256sum ev st file_path of
           RunRaised e \<Rightarrow> (st1, False)
         | Exited rc out \<Rightarrow>
             if rc \<noteq> 0 then (st1, False)
             else (case split_ws out of
                     [] \<Rightarrow> (st1, False)
                   | actual # _ \<Rightarrow> (st1, lower actual = lower expected_hash)))"

section \<open>\<open>download_civitai_model\<close>\<close>

text \<open>\<open>self.download_tmp_dir / filename\<close>: a \<open>TypeError\<close> unless \<open>filename\<close> is a
  \<open>str\<close>; an absolute \<open>filename\<close> replaces the directory; empty and \<open>.\<close> segments
  are dropped.\<close>

definition download_tmp_dir :: path where
  "download_tmp_dir = [''workspace'', ''downloads_tmp'']"

definition segments :: "string \<Rightarrow> path" where
  "segments s = filter (\<lambda>p. p \<noteq> [] \<and> p \<noteq> ''.'') (split_where (\<lambda>c. c = CHR ''/'') s)"

definition staging_path :: "json \<Rightarrow> exc + path" where
  "staging_path fname =
     (case fname of
        JStr s \<Rightarrow>
          Inr (if s \<noteq> [] \<and> hd s = CHR ''/'' then segments s else download_tmp_dir @ segments s)
      | _ \<Rightarrow> Inl TypeError)"

definition transfer_url :: "string \<Rightarrow> string option \<Rightarrow> string" where
  "transfer_url url token =
     (case token of
        None \<Rightarrow> url
      | Some t \<Rightarrow> if t \<noteq> [] then url @ ''&token='' @ t else url)"

text \<open>
  The steps after a transfer that exited with 0 (\<open>st\<close> is the state the tool left):
  verify when a hash is there, unlink and fail on a mismatch. An exception raised by
  \<open>unlink\<close> is not a \<open>CalledProcessError\<close> and leaves the function.
\<close>

definition after_transfer :: "env \<Rightarrow> state \<Rightarrow> model_info \<Rightarrow> exc + (state \<times> bool)" where
  "after_transfer ev st info =
     (if hash info \<noteq> [] then
        bindE (staging_path (filename info)) (\<lambda>downloaded_file.
          case verify_checksum ev st downloaded_file (hash info) of
            (st1, ok) \<Rightarrow>
              if ok then Inr (st1, True)
              else (case unlink ev st1 downloaded_file of
                      Some e \<Rightarrow> Inl e
                    | None \<Rightarrow>
                        Inr (emit (Unlink downloaded_file)
                               (st1\<lparr>staged := staged st1 - {downloaded_file}\<rparr>), False)))
      else Inr (st, True))"

text \<open>Only \<open>subprocess.CalledProcessError\<close> (a non-zero exit) is caught around the
  transfer and the verification; what \<open>subprocess.run\<close> raises itself leaves the
  function.\<close>

definition download_civitai_model ::
  "env \<Rightarrow> bool \<Rightarrow> state \<Rightarrow> string \<Rightarrow> string \<Rightarrow> string option \<Rightarrow> exc + (state \<times> bool)" where
  "download_civitai_model ev debug_mode st model_id model_type token =
     (if model_id = [] then Inr (st, True)
      else bindE (get_civitai_model_info ev st model_id token) (\<lambda>(st1, model_info).
        case model_info of
          None \<Rightarrow> Inr (st1, False)
        | Some info \<Rightarrow>
            if \<not> truthy (filename info) then Inr (st1, False)
            else if file_exists_in_models ev st1 (filename info) then Inr (st1, True)
            else
              (let url = transfer_url (download_url info) token;
                   st2 = emit (RunAria2c debug_mode (filename info) url) st1
               in case aria2c ev st1 debug_mode (filename info) url of
                    (RunRaised e, files) \<Rightarrow> Inl e
                  | (Exited rc out, files) \<Rightarrow>
                      if rc \<noteq> 0 then Inr (st2\<lparr>staged := files\<rparr>, False)
                      else after_transfer ev (st2\<lparr>staged := files\<rparr>) info)))"

section \<open>\<open>process_civitai_downloads\<close> and \<open>download_hf_repos\<close>\<close>

text \<open>\<open>[id.strip() for id in download_list.split(',') if id.strip()]\<close>\<close>

definition split_ids :: "string \<Rightarrow> string list" where
  "split_ids download_list =
     map strip (filter (\<lambda>i. strip i \<noteq> []) (split_comma download_list))"

text \<open>The loop over \<open>ids\<close>, with the two counters.\<close>

fun civitai_loop ::
  "env \<Rightarrow> bool \<Rightarrow> state \<Rightarrow> string list \<Rightarrow> string \<Rightarrow> string option \<Rightarrow> nat \<Rightarrow> nat
     \<Rightarrow> exc + (state \<times> nat \<times> nat)" where
  "civitai_loop ev debug_mode st [] model_type token successful failed =
     Inr (st, successful, failed)"
| "civitai_loop ev debug_mode st (model_id # ids) model_type token successful failed =
     bindE (download_civitai_model ev debug_mode st model_id model_type token) (\<lambda>(st1, ok).
       if ok then civitai_loop ev debug_mode st1 ids model_type token (successful + 1) failed
       else civitai_loop ev debug_mode st1 ids model_type token successful (failed + 1))"

text \<open>The function returns \<open>True\<close>; the counters leave it only in the line it logs.\<close>

definition process_civitai_downloads ::
  "env \<Rightarrow> bool \<Rightarrow> state \<Rightarrow> string \<Rightarrow> string \<Rightarrow> string option \<Rightarrow> exc + (state \<times> bool)" where
  "process_civitai_downloads ev debug_mode st download_list model_type token =
     (if download_list = [] then Inr (st, True)
      else bindE (civitai_loop ev debug_mode st (split_ids download_list) model_type token 0 0)
             (\<lambda>(st1, successful, failed).
                Inr (emit (LogTally model_type successful failed) st1, True)))"

text \<open>
  One repository: a non-zero exit is caught and the loop continues; in debug mode a
  completed download is followed by \<open>du\<close>, whose outcome is ignored.
\<close>

definition hf_token :: "string option \<Rightarrow> string option" where
  "hf_token token =
     (case token of
        None \<Rightarrow> None
      | Some t \<Rightarrow> if t \<noteq> [] then Some t else None)"

fun hf_loop :: "env \<Rightarrow> bool \<Rightarrow> state \<Rightarrow> string list \<Rightarrow> string option \<Rightarrow> exc + state" where
  "hf_loop ev debug_mode st [] token = Inr st"
| "hf_loop ev debug_mode st (repo_id # repos) token =
     (let st1 = emit (RunHfCli debug_mode repo_id (hf_token token)) st
      in case hf_cli ev st debug_mode repo_id (hf_token token) of
           (RunRaised e, files) \<Rightarrow> Inl e
         | (Exited rc out, files) \<Rightarrow>
             if rc \<noteq> 0 then hf_loop ev debug_mode (st1\<lparr>staged := files\<rparr>) repos token
             else if debug_mode then
               hf_loop ev debug_mode
                 (emit (RunDu (download_tmp_dir @ segments repo_id)) (st1\<lparr>staged := files\<rparr>))
                 repos token
             else hf_loop ev debug_mode (st1\<lparr>staged := files\<rparr>) repos token)"

definition download_hf_repos ::
  "env \<Rightarrow> bool \<Rightarrow> state \<Rightarrow> string \<Rightarrow> string option \<Rightarrow> exc + (state \<times> bool)" where
  "download_hf_repos ev debug_mode st repos_list token =
     (if repos_list = [] then Inr (st, True)
      else bindE (hf_loop ev debug_mode st (split_ids repos_list) token) (\<lambda>st1.
             Inr (st1, True)))"

section \<open>The results of a batch\<close>

text \<open>
  \<open>outcomes\<close> runs the per-artifact download on each identifier in turn, each from the
  state the one before left, and lists what they return; an exception that leaves one of
  them ends the run. It states what the two counters of the loop are to count.
\<close>

fun outcomes ::
  "env \<Rightarrow> bool \<Rightarrow> state \<Rightarrow> string list \<Rightarrow> string \<Rightarrow> string option
     \<Rightarrow> exc + (state \<times> bool list)" where
  "outcomes ev debug_mode st [] model_type token = Inr (st, [])"
| "outcomes ev debug_mode st (model_id # ids) model_type token =
     bindE (download_civitai_model ev debug_mode st model_id model_type token) (\<lambda>(st1, ok).
       bindE (outcomes ev debug_mode st1 ids model_type token) (\<lambda>(st2, oks).
         Inr (st2, ok # oks)))"

section \<open>Responses and tools within the anticipated failures\<close>

text \<open>
  A body has the shape of the API's answer when it is a dict whose \<open>files\<close>, if it is
  there and not empty, is a list whose first entry is a dict with a \<open>name\<close> that is a
  \<open>str\<close> or \<open>None\<close> and with \<open>hashes\<close>, if there, a dict whose \<open>SHA256\<close>,
  if there, is a \<open>str\<close>. An environment is \<open>anticipated\<close> when no request raises
  anything but a \<open>RequestException\<close>, every body of a response with status 200 is
  rejected as not JSON or has that shape, \<open>subprocess.run\<close> raises nothing for the
  transfer tool, and \<open>unlink\<close> raises nothing. Failed requests, error statuses, bodies
  that are not JSON, missing files lists, missing names and hashes, non-zero exits and
  any outcome of the checksum tool are all within it.
\<close>

fun shaped_name :: "json \<Rightarrow> bool" where
  "shaped_name JNull = True"
| "shaped_name (JStr s) = True"
| "shaped_name v = False"

fun shaped_hashes :: "json \<Rightarrow> bool" where
  "shaped_hashes (JObj hs) =
     (case map_of hs ''SHA256'' of None \<Rightarrow> True | Some (JStr h) \<Rightarrow> True | Some v \<Rightarrow> False)"
| "shaped_hashes v = False"

fun shaped_file :: "json \<Rightarrow> bool" where
  "shaped_file (JObj kvs) =
     ((case map_of kvs ''name'' of None \<Rightarrow> True | Some n \<Rightarrow> shaped_name n)
      \<and> (case map_of kvs ''hashes'' of None \<Rightarrow> True | Some h \<Rightarrow> shaped_hashes h))"
| "shaped_file v = False"

fun shaped_body :: "json \<Rightarrow> bool" where
  "shaped_body (JObj kvs) =
     (case map_of kvs ''files'' of
        None \<Rightarrow> True
      | Some (JArr (f # fs)) \<Rightarrow> shaped_file f
      | Some v \<Rightarrow> \<not> truthy v)"
| "shaped_body v = False"

fun shaped_response :: "http_outcome \<Rightarrow> bool" where
  "shaped_response RequestFailed = True"
| "shaped_response (GetRaised e) = False"
| "shaped_response (Response status NotJson) = True"
| "shaped_response (Response status (DecodeRaised e)) = (if status = 200 then False else True)"
| "shaped_response (Response status (Json data)) = (if status = 200 then shaped_body data else True)"

fun has_run :: "proc_outcome \<Rightarrow> bool" where
  "has_run (RunRaised e) = False"
| "has_run (Exited rc out) = True"

definition anticipated :: "env \<Rightarrow> bool" where
  "anticipated ev =
     ((\<forall>st url h. shaped_response (http_get ev st url h))
      \<and> (\<forall>st d f u. has_run (fst (aria2c ev st d f u)))
      \<and> (\<forall>st p. unlink ev st p = None))"

text \<open>\<open>subprocess.run\<close> raises nothing for the repository tool.\<close>

definition hf_launches :: "env \<Rightarrow> bool" where
  "hf_launches ev = (\<forall>st d r t. has_run (fst (hf_cli ev st d r t)))"

section \<open>Plain file names\<close>

text \<open>A name without the characters \<open>*\<close>, \<open>?\<close>, \<open>[\<close> and \<open>/\<close> that is not
  \<open>.\<close> or \<open>..\<close>: as a pattern it has no wildcard.\<close>

definition plain_name :: "string \<Rightarrow> bool" where
  "plain_name p =
     (p \<noteq> [] \<and> p \<noteq> ''.'' \<and> p \<noteq> ''..''
      \<and> list_all (\<lambda>c. c \<noteq> CHR ''*'' \<and> c \<noteq> CHR ''?'' \<and> c \<noteq> CHR ''['' \<and> c \<noteq> CHR ''/'') p)"

section \<open>Example worlds\<close>

text \<open>
  \<open>world reply tree rc sum_out\<close>: the API answers \<open>reply url\<close>, the models directory is
  \<open>tree\<close>, both transfer tools exit with \<open>rc\<close> (the downloader leaving its file in the
  staging directory when \<open>rc\<close> is 0), the checksum tool prints \<open>sum_out\<close>, and
  \<open>unlink\<close> raises nothing. In \<open>staging_dir_world\<close> the staging directory is what it
  is on disk, a directory, so that \<open>unlink\<close> on it raises an \<open>OSError\<close>.
\<close>

definition st0 :: state where
  "st0 = \<lparr>staged = {}, trace = []\<rparr>"

definition world :: "(string \<Rightarrow> http_outcome) \<Rightarrow> models_root \<Rightarrow> int \<Rightarrow> string \<Rightarrow> env" where
  "world reply tree rc sum_out =
     \<lparr>http_get = (\<lambda>st url header. reply url),
      models_dir = (\<lambda>st. tree),
      rglob_other = (\<lambda>st pattern. Inr []),
      aria2c = (\<lambda>st debug_mode fname url.
        (Exited rc [],
         case staging_path fname of
           Inl e \<Rightarrow> staged st
         | Inr p \<Rightarrow> if rc = 0 then insert p (staged st) else staged st)),
      sha256sum = (\<lambda>st p. Exited 0 sum_out),
      hf_cli = (\<lambda>st debug_mode repo_id token. (Exited rc [], staged st)),
      unlink = (\<lambda>st p. None)\<rparr>"

definition staging_dir_world ::
  "(string \<Rightarrow> http_outcome) \<Rightarrow> models_root \<Rightarrow> int \<Rightarrow> string \<Rightarrow> env" where
  "staging_dir_world reply tree rc sum_out =
     (world reply tree rc sum_out)
       \<lparr>unlink := (\<lambda>st p. if p = download_tmp_dir then Some OSError else None)\<rparr>"

text \<open>\<open>answer data\<close> gives every request the status 200 and the body \<open>data\<close>;
  \<open>answer_only model_id data\<close> gives it to the requests for \<open>model_id\<close>, every other
  request fails. \<open>model_111_body\<close> lists one file with a name and an upper-case hash.\<close>

definition answer :: "json \<Rightarrow> string \<Rightarrow> http_outcome" where
  "answer data url = Response 200 (Json data)"

definition answer_only :: "string \<Rightarrow> json \<Rightarrow> string \<Rightarrow> http_outcome" where
  "answer_only model_id data url =
     (if url = api_url model_id then Response 200 (Json data) else RequestFailed)"

definition model_111_body :: json where
  "model_111_body = JObj [(''files'', JArr [JObj [(''name'', JStr ''a.safetensors''),
                 (''hashes'', JObj [(''SHA256'', JStr ''ABC123'')])]])]"

section \<open>Stripping and splitting\<close>

lemma dropWhile_all_space:
  assumes "\<forall>x\<in>set (dropWhile is_space s). is_space x"
  shows "dropWhile is_space s = []"
proof (rule ccontr)
  assume n: "dropWhile is_space s \<noteq> []"
  then have "\<not> is_space (hd (dropWhile is_space s))" by (rule hd_dropWhile)
  moreover have "hd (dropWhile is_space s) \<in> set (dropWhile is_space s)"
    using n by (rule hd_in_set)
  ultimately show False using assms by blast
qed

lemma strip_empty_iff: "strip s = [] \<longleftrightarrow> list_all is_space s"
proof
  assume "strip s = []"
  then have "dropWhile is_space (rev (dropWhile is_space s)) = []"
    unfolding strip_def by (simp only: rev_is_Nil_conv)
  then have "\<forall>x\<in>set (rev (dropWhile is_space s)). is_space x"
    by (simp only: dropWhile_eq_Nil_conv)
  then have "\<forall>x\<in>set (dropWhile is_space s). is_space x" by (simp only: set_rev)
  then have "dropWhile is_space s = []" by (rule dropWhile_all_space)
  then show "list_all is_space s" by (simp only: dropWhile_eq_Nil_conv list_all_iff)
next
  assume "list_all is_space s"
  then have "dropWhile is_space s = []" by (simp only: dropWhile_eq_Nil_conv list_all_iff)
  then show "strip s = []" unfolding strip_def by (simp only: rev.simps dropWhile.simps)
qed

lemma strip_edges:
  assumes "strip s \<noteq> []"
  shows "\<not> is_space (hd (strip s)) \<and> \<not> is_space (last (strip s))"
proof -
  define a where "a = dropWhile is_space s"
  define b where "b = dropWhile is_space (rev a)"
  have sb: "strip s = rev b" by (simp add: strip_def a_def b_def)
  from assms sb have b: "b \<noteq> []" by simp
  have a: "a \<noteq> []"
  proof
    assume "a = []"
    then have "b = []" by (simp add: b_def)
    with b show False by simp
  qed
  have "last (strip s) = hd b" using b sb by (simp add: last_rev)
  moreover have "\<not> is_space (hd b)" using b unfolding b_def by (rule hd_dropWhile)
  moreover have "hd (strip s) = last b" using b sb by (simp add: hd_rev)
  moreover have "last b = last (rev a)"
  proof -
    have "rev a = takeWhile is_space (rev a) @ b" by (simp add: b_def)
    then show ?thesis using b by (metis last_appendR)
  qed
  moreover have "last (rev a) = hd a" using a by (simp add: last_rev)
  moreover have "\<not> is_space (hd a)" using a unfolding a_def by (rule hd_dropWhile)
  ultimately show ?thesis by simp
qed

lemma dropWhile_id: "xs \<noteq> [] \<Longrightarrow> \<not> P (hd xs) \<Longrightarrow> dropWhile P xs = xs"
  by (cases xs) simp_all

lemma strip_idem: "strip (strip s) = strip s"
proof (cases "strip s = []")
  case True
  then show ?thesis by (simp add: strip_def [of "[]"])
next
  case False
  from strip_edges [OF False] have h: "\<not> is_space (hd (strip s))" and l: "\<not> is_space (last (strip s))"
    by simp_all
  have 1: "dropWhile is_space (strip s) = strip s"
    using False h by (rule dropWhile_id)
  have "hd (rev (strip s)) = last (strip s)" using False by (simp add: hd_rev)
  then have 2: "dropWhile is_space (rev (strip s)) = rev (strip s)"
    using False l by (intro dropWhile_id) simp_all
  show ?thesis
    unfolding strip_def [of "strip s"] 1 2 by simp
qed


text \<open>
  C8. The identifier list is cut at the commas; the entries that are empty or consist
  of whitespace only are dropped and the others are stripped, in order. Every
  identifier kept is non-empty and has no whitespace at either end. The list
  \<open>a, ,b\<close> gives exactly \<open>a\<close> and \<open>b\<close>. Both \<open>process_civitai_downloads\<close> and
  \<open>download_hf_repos\<close> iterate over \<open>split_ids\<close> of their list.
\<close>

theorem split_ids_drops_blank_entries:
  "split_ids s = map strip (filter (\<lambda>e. \<not> list_all is_space e) (split_comma s))
   \<and> list_all (\<lambda>i. i \<noteq> [] \<and> strip i = i \<and> \<not> is_space (hd i) \<and> \<not> is_space (last i)) (split_ids s)
   \<and> split_ids ''a, ,b'' = [''a'', ''b'']"
proof -
  have 1: "split_ids s = map strip (filter (\<lambda>e. \<not> list_all is_space e) (split_comma s))"
    by (simp add: split_ids_def strip_empty_iff)
  have 2: "list_all (\<lambda>i. i \<noteq> [] \<and> strip i = i \<and> \<not> is_space (hd i) \<and> \<not> is_space (last i)) (split_ids s)"
    unfolding split_ids_def list_all_iff using strip_edges strip_idem by auto
  have 3: "split_ids ''a, ,b'' = [''a'', ''b'']"
    by (simp add: split_ids_def split_comma_def strip_def is_space_def)
  from 1 2 3 show ?thesis by blast
qed

section \<open>Evaluation on concrete worlds\<close>

lemmas run_defs =
  get_civitai_model_info_def download_civitai_model_def after_transfer_def verify_checksum_def
  first_file_def make_info_def bindE_def emit_def api_url_def model_url_def auth_header_def
  transfer_url_def staging_path_def segments_def download_tmp_dir_def file_exists_in_models_def
  rglob_def lower_def is_upper_def split_ws_def is_space_def world_def staging_dir_world_def
  answer_def st0_def

lemmas batch_defs =
  process_civitai_downloads_def split_ids_def split_comma_def strip_def answer_only_def
  model_111_body_def ordinary_pattern_def tree_nodes_def fnmatch_def

lemma anticipated_world:
  "anticipated (world (answer_only ''111'' model_111_body) tree rc sum_out)"
  by (simp add: anticipated_def world_def answer_only_def model_111_body_def)

section \<open>Metadata resolution\<close>

lemma resolve_state:
  "get_civitai_model_info ev st model_id token = Inr (st1, r) \<Longrightarrow>
   st1 = emit (HttpGet (api_url model_id) (auth_header token)) st"
  by (auto simp: get_civitai_model_info_def Let_def bindE_def
      split: http_outcome.splits body.splits if_splits sum.splits option.splits)

lemma first_file_SomeD:
  assumes "first_file data = Inr (Some file_info)"
  shows "\<exists>kvs. data = JObj kvs
           \<and> ((\<exists>rest. map_of kvs ''files'' = Some (JArr (file_info # rest)))
                \<or> (\<exists>c cs. map_of kvs ''files'' = Some (JStr (c # cs)) \<and> file_info = JStr [c]))"
proof (cases data)
  case (JObj kvs)
  show ?thesis
  proof (cases "map_of kvs ''files''")
    case None
    with JObj assms show ?thesis by (simp add: first_file_def bindE_def)
  next
    case (Some v)
    with JObj assms show ?thesis
      by (cases v; auto simp: first_file_def bindE_def neq_Nil_conv split: if_splits)
  qed
qed (use assms in \<open>simp_all add: first_file_def bindE_def split: if_splits\<close>)

lemma make_info_InrD:
  assumes "make_info model_id file_info = Inr info"
  shows "\<exists>file_kvs. file_info = JObj file_kvs
           \<and> filename info = (case map_of file_kvs ''name'' of None \<Rightarrow> JNull | Some v \<Rightarrow> v)"
proof (cases file_info)
  case (JObj file_kvs)
  with assms show ?thesis
    by (auto simp: make_info_def bindE_def split: sum.splits)
qed (use assms in \<open>simp_all add: make_info_def bindE_def\<close>)

lemma resolve_SomeD:
  assumes "get_civitai_model_info ev st model_id token = Inr (st1, Some info)"
  shows "\<exists>data file_info.
           http_get ev st (api_url model_id) (auth_header token) = Response 200 (Json data)
           \<and> first_file data = Inr (Some file_info)
           \<and> make_info model_id file_info = Inr info"
  using assms
  by (auto simp: get_civitai_model_info_def Let_def bindE_def
      split: http_outcome.splits body.splits if_splits sum.splits option.splits)

lemma resolve_soft_failures:
  assumes "http_get ev st (api_url model_id) (auth_header token) = r"
    and "r = RequestFailed
         \<or> (\<exists>status body. r = Response status body \<and> status \<noteq> 200)
         \<or> (\<exists>status. r = Response status NotJson)
         \<or> (\<exists>kvs. r = Response 200 (Json (JObj kvs))
               \<and> (case map_of kvs ''files'' of None \<Rightarrow> True | Some v \<Rightarrow> \<not> truthy v))"
  shows "get_civitai_model_info ev st model_id token =
           Inr (emit (HttpGet (api_url model_id) (auth_header token)) st, None)"
  using assms
  by (auto simp: get_civitai_model_info_def Let_def first_file_def bindE_def split: option.splits)

lemma resolve_none_fails:
  assumes "model_id \<noteq> []"
    and "get_civitai_model_info ev st model_id token = Inr (st1, None)"
  shows "download_civitai_model ev debug_mode st model_id model_type token = Inr (st1, False)"
  using assms by (simp add: download_civitai_model_def bindE_def)

text \<open>
  C3. A failed request, a status other than 200, a body that is not JSON and a dict
  without a non-empty \<open>files\<close> give \<open>None\<close> (\<open>resolve_soft_failures\<close>), and the
  artifact is then reported failed with no transfer (\<open>resolve_none_fails\<close>). A body
  that lacks a files list because it is not a dict at all, or whose \<open>files\<close> is not a
  list, is not covered: the body \<open>null\<close> and the body \<open>{"files": 5}\<close> raise a
  \<open>TypeError\<close>, which the \<open>except requests.RequestException\<close> clause does not
  catch, so the exception leaves \<open>get_civitai_model_info\<close> and
  \<open>download_civitai_model\<close>.
\<close>

theorem malformed_body_raises:
  "get_civitai_model_info (world (answer JNull) (Root []) 0 []) st0 ''111'' None = Inl TypeError
   \<and> get_civitai_model_info (world (answer (JObj [(''files'', JNum 5)])) (Root []) 0 []) st0
         ''111'' None = Inl TypeError
   \<and> download_civitai_model (world (answer JNull) (Root []) 0 []) False st0 ''111''
         ''Checkpoint'' None = Inl TypeError"
  by (simp add: run_defs)

text \<open>
  C5, as stated, fails: for the body \<open>{"files": [{}]}\<close> the function returns an
  artifact whose filename is \<open>None\<close>, and for \<open>{"files": [{"name": 5}]}\<close> one whose
  filename is the number 5.
\<close>

theorem resolve_may_return_missing_filename:
  "get_civitai_model_info (world (answer (JObj [(''files'', JArr [JObj []])])) (Root []) 0 [])
     st0 ''111'' None =
   Inr (\<lparr>staged = {}, trace = [HttpGet ''https://civitai.com/api/v1/model-versions/111'' None]\<rparr>,
        Some \<lparr>filename = JNull,
              download_url = ''https://civitai.com/api/download/models/111?type=Model&format=SafeTensor'',
              hash = []\<rparr>)
   \<and> get_civitai_model_info
       (world (answer (JObj [(''files'', JArr [JObj [(''name'', JNum 5)]])])) (Root []) 0 [])
       st0 ''111'' None =
     Inr (\<lparr>staged = {}, trace = [HttpGet ''https://civitai.com/api/v1/model-versions/111'' None]\<rparr>,
          Some \<lparr>filename = JNum 5,
                download_url = ''https://civitai.com/api/download/models/111?type=Model&format=SafeTensor'',
                hash = []\<rparr>)"
  by (simp add: run_defs)

text \<open>
  C5, amended. Whenever \<open>get_civitai_model_info\<close> returns an artifact, the response had
  the status 200 and a dict as body, whose \<open>files\<close> is a list with a dict as first
  entry, and the filename of the artifact is that entry's \<open>name\<close> as received: \<open>None\<close>
  when the entry has none, otherwise the value it holds, which may be empty or no
  string. The check for a usable filename is the caller's: for an artifact whose filename
  is missing or empty \<open>download_civitai_model\<close> reports failure, and the request for the
  metadata is the only call it has made.
\<close>

theorem filename_is_name_field_checked_by_caller:
  assumes "get_civitai_model_info ev st model_id token = Inr (st1, Some info)"
  shows "(\<exists>kvs file_kvs rest.
            http_get ev st (api_url model_id) (auth_header token) = Response 200 (Json (JObj kvs))
            \<and> map_of kvs ''files'' = Some (JArr (JObj file_kvs # rest))
            \<and> filename info = (case map_of file_kvs ''name'' of None \<Rightarrow> JNull | Some v \<Rightarrow> v))
       \<and> (model_id \<noteq> [] \<and> \<not> truthy (filename info) \<longrightarrow>
            download_civitai_model ev debug_mode st model_id model_type token =
              Inr (\<lparr>staged = staged st,
                    trace = trace st @ [HttpGet (api_url model_id) (auth_header token)]\<rparr>, False))"
proof -
  from resolve_SomeD [OF assms] obtain data file_info where
    h: "http_get ev st (api_url model_id) (auth_header token) = Response 200 (Json data)"
    and f: "first_file data = Inr (Some file_info)"
    and m: "make_info model_id file_info = Inr info" by blast
  from make_info_InrD [OF m] obtain file_kvs where
    fi: "file_info = JObj file_kvs"
    and n: "filename info = (case map_of file_kvs ''name'' of None \<Rightarrow> JNull | Some v \<Rightarrow> v)"
    by blast
  from first_file_SomeD [OF f] fi obtain kvs rest where
    "data = JObj kvs" and "map_of kvs ''files'' = Some (JArr (JObj file_kvs # rest))"
    by auto
  with h n have 1: "\<exists>kvs file_kvs rest.
            http_get ev st (api_url model_id) (auth_header token) = Response 200 (Json (JObj kvs))
            \<and> map_of kvs ''files'' = Some (JArr (JObj file_kvs # rest))
            \<and> filename info = (case map_of file_kvs ''name'' of None \<Rightarrow> JNull | Some v \<Rightarrow> v)"
    by blast
  have 2: "download_civitai_model ev debug_mode st model_id model_type token =
              Inr (\<lparr>staged = staged st,
                    trace = trace st @ [HttpGet (api_url model_id) (auth_header token)]\<rparr>, False)"
    if "model_id \<noteq> []" and "\<not> truthy (filename info)"
    using that assms resolve_state [OF assms]
    by (simp add: download_civitai_model_def bindE_def emit_def)
  from 1 2 show ?thesis by blast
qed

theorem filename_is_name_field_checked_by_caller_witness:
  "download_civitai_model
     (world (answer (JObj [(''files'', JArr [JObj [(''name'', JStr [])], JObj []])])) (Root []) 0 [])
     False st0 ''111'' ''Checkpoint'' None =
   Inr (\<lparr>staged = {}, trace = [HttpGet ''https://civitai.com/api/v1/model-versions/111'' None]\<rparr>,
        False)
   \<and> (\<exists>kvs file_kvs rest.
         answer (JObj [(''files'', JArr [JObj [(''name'', JStr [])], JObj []])])
           ''https://civitai.com/api/v1/model-versions/111'' = Response 200 (Json (JObj kvs))
         \<and> map_of kvs ''files'' = Some (JArr (JObj file_kvs # rest))
         \<and> JStr [] = (case map_of file_kvs ''name'' of None \<Rightarrow> JNull | Some v \<Rightarrow> v))"
proof -
  let ?ev = "world (answer (JObj [(''files'', JArr [JObj [(''name'', JStr [])], JObj []])])) (Root []) 0 []"
  let ?info = "\<lparr>filename = JStr [], download_url = model_url ''111'', hash = []\<rparr>"
  have 1: "get_civitai_model_info ?ev st0 ''111'' None =
             Inr (emit (HttpGet (api_url ''111'') None) st0, Some ?info)"
    by (simp add: run_defs)
  have 2: "''111'' \<noteq> [] \<and> \<not> truthy (filename ?info)" by simp
  show ?thesis
    using filename_is_name_field_checked_by_caller [OF 1, of False "''Checkpoint''"] 2
    by (simp add: run_defs)
qed

section \<open>The existence check\<close>

lemma glob_tokens_literal:
  "list_all (\<lambda>c. c \<noteq> CHR ''*'' \<and> c \<noteq> CHR ''?'' \<and> c \<noteq> CHR ''['' \<and> c \<noteq> CHR ''/'') p
   \<Longrightarrow> glob_tokens p = map GLit p"
  by (induction p) simp_all

lemma glob_match_literal: "glob_match (map GLit p) s \<longleftrightarrow> s = p"
proof (induction p arbitrary: s)
  case Nil
  then show ?case by simp
next
  case (Cons c p)
  then show ?case by (cases s) auto
qed

lemma substring_hd: "substring n h \<Longrightarrow> n \<noteq> [] \<Longrightarrow> hd n \<in> set h"
proof (induction h)
  case Nil
  then show ?case by simp
next
  case (Cons c cs)
  show ?case
  proof (cases "take (length n) (c # cs) = n")
    case True
    with Cons.prems(2) have "hd n = c" by (cases n) auto
    then show ?thesis by simp
  next
    case False
    with Cons show ?thesis by simp
  qed
qed

lemma plain_name_ordinary: "plain_name p \<Longrightarrow> ordinary_pattern p"
proof -
  assume p: "plain_name p"
  then have l: "list_all (\<lambda>c. c \<noteq> CHR ''*'' \<and> c \<noteq> CHR ''?'' \<and> c \<noteq> CHR ''['' \<and> c \<noteq> CHR ''/'') p"
    by (simp add: plain_name_def)
  have "\<not> substring ''**'' p"
  proof
    assume "substring ''**'' p"
    then have "hd ''**'' \<in> set p" by (rule substring_hd) simp
    with l show False by (auto simp: list_all_iff)
  qed
  moreover have "CHR ''/'' \<notin> set p" using l by (auto simp: list_all_iff)
  moreover have "list_all proper_tok (glob_tokens p)"
    by (simp add: glob_tokens_literal [OF l] list_all_iff)
  ultimately show ?thesis using p by (simp add: ordinary_pattern_def plain_name_def)
qed

lemma any_file_iff: "any_file ns \<longleftrightarrow> (\<exists>n\<in>set ns. is_file n)"
  by (induction ns) auto

lemma file_node_iff: "is_file n \<and> node_name n = p \<longleftrightarrow> n = File p"
  by (cases n) auto

lemma plain_name_found_iff:
  assumes "plain_name p" and "models_dir ev st = Root entries"
  shows "file_exists_in_models ev st (JStr p) \<longleftrightarrow> File p \<in> set (tree_nodes entries)"
proof -
  have l: "list_all (\<lambda>c. c \<noteq> CHR ''*'' \<and> c \<noteq> CHR ''?'' \<and> c \<noteq> CHR ''['' \<and> c \<noteq> CHR ''/'') p"
    using assms(1) by (simp add: plain_name_def)
  have m: "fnmatch name p \<longleftrightarrow> name = p" for name
    by (simp add: fnmatch_def glob_tokens_literal [OF l] glob_match_literal)
  have ne: "p \<noteq> []" and sl: "hd p \<noteq> CHR ''/''"
    using assms(1) l by (cases p; simp add: plain_name_def)+
  have "rglob ev st p = Inr (filter (\<lambda>n. node_name n = p) (tree_nodes entries))"
    using ne sl assms(2) plain_name_ordinary [OF assms(1)] by (simp add: rglob_def m)
  then have "file_exists_in_models ev st (JStr p) \<longleftrightarrow>
               (\<exists>n\<in>set (tree_nodes entries). is_file n \<and> node_name n = p)"
    by (auto simp: file_exists_in_models_def any_file_iff)
  then show ?thesis by (simp add: file_node_iff)
qed

lemma no_root_not_found:
  assumes "models_dir ev st = NoDir \<or> models_dir ev st = Unreadable"
  shows "\<not> file_exists_in_models ev st fname"
  using assms by (auto simp: file_exists_in_models_def rglob_def split: json.splits)

text \<open>
  C9. For a plain name the check is exact (\<open>plain_name_found_iff\<close>), and under a
  missing or inaccessible directory it is \<open>False\<close> (\<open>no_root_not_found\<close>). But
  \<open>rglob\<close> takes the filename as a pattern: with the file \<open>[v1]a.safetensors\<close>
  present in a subdirectory the check for that very name is \<open>False\<close>, since \<open>[v1]\<close>
  stands for one of the characters \<open>v\<close> and \<open>1\<close>; and it is \<open>True\<close> when only
  \<open>va.safetensors\<close> is there.
\<close>

theorem bracket_filename_not_found:
  "file_exists_in_models
     (world (answer JNull) (Root [Dir ''loras'' [File ''[v1]a.safetensors'']]) 0 []) st0
     (JStr ''[v1]a.safetensors'') = False
   \<and> file_exists_in_models
     (world (answer JNull) (Root [Dir ''loras'' [File ''va.safetensors'']]) 0 []) st0
     (JStr ''[v1]a.safetensors'') = True"
  by (simp add: run_defs ordinary_pattern_def tree_nodes_def fnmatch_def bracket_def in_class_def)

lemma present_file_skips_transfer:
  assumes "model_id \<noteq> []"
    and "get_civitai_model_info ev st model_id token = Inr (st1, Some info)"
    and "truthy (filename info)"
    and "file_exists_in_models ev st1 (filename info)"
  shows "download_civitai_model ev debug_mode st model_id model_type token =
           Inr (\<lparr>staged = staged st,
                 trace = trace st @ [HttpGet (api_url model_id) (auth_header token)]\<rparr>, True)"
  using assms resolve_state [OF assms(2)]
  by (simp add: download_civitai_model_def bindE_def emit_def)

text \<open>
  C2. When the check answers \<open>True\<close> the artifact is reported successful and nothing
  is transferred or verified (\<open>present_file_skips_transfer\<close>). The check misses a
  present file whose name has a bracket (C9): with \<open>[v1]a.safetensors\<close> already in
  the models tree, the artifact of that name is transferred again.
\<close>

theorem present_bracket_file_downloaded_again:
  "download_civitai_model
     (world (answer (JObj [(''files'', JArr [JObj [(''name'', JStr ''[v1]a.safetensors'')]])]))
        (Root [Dir ''loras'' [File ''[v1]a.safetensors'']]) 0 [])
     False st0 ''111'' ''LoRA'' None =
   Inr (\<lparr>staged = {[''workspace'', ''downloads_tmp'', ''[v1]a.safetensors'']},
         trace = [HttpGet ''https://civitai.com/api/v1/model-versions/111'' None,
                  RunAria2c False (JStr ''[v1]a.safetensors'')
                    ''https://civitai.com/api/download/models/111?type=Model&format=SafeTensor'']\<rparr>,
        True)"
  by (simp add: run_defs ordinary_pattern_def tree_nodes_def fnmatch_def bracket_def in_class_def)

section \<open>Transfer and verification\<close>

lemma transfer_done:
  assumes "model_id \<noteq> []"
    and "get_civitai_model_info ev st model_id token = Inr (st1, Some info)"
    and "truthy (filename info)"
    and "\<not> file_exists_in_models ev st1 (filename info)"
    and "aria2c ev st1 debug_mode (filename info) (transfer_url (download_url info) token)
         = (Exited 0 out, files)"
  shows "download_civitai_model ev debug_mode st model_id model_type token =
           after_transfer ev
             \<lparr>staged = files,
              trace = trace st1 @
                [RunAria2c debug_mode (filename info) (transfer_url (download_url info) token)]\<rparr>
             info"
  using assms by (cases st1) (simp add: download_civitai_model_def bindE_def emit_def Let_def)

lemma after_transfer_checked:
  assumes "hash info \<noteq> []"
    and "staging_path (filename info) = Inr p"
    and "sha256sum ev st2 p = Exited 0 sum_out"
    and "split_ws sum_out = digest # rest"
  shows "after_transfer ev st2 info =
           (if lower digest = lower (hash info)
            then Inr (\<lparr>staged = staged st2, trace = trace st2 @ [RunSha256sum p]\<rparr>, True)
            else (case unlink ev \<lparr>staged = staged st2, trace = trace st2 @ [RunSha256sum p]\<rparr> p of
                    Some e \<Rightarrow> Inl e
                  | None \<Rightarrow>
                      Inr (\<lparr>staged = staged st2 - {p},
                            trace = trace st2 @ [RunSha256sum p, Unlink p]\<rparr>, False)))"
  using assms
  by (cases st2)
    (simp add: after_transfer_def verify_checksum_def bindE_def emit_def split: option.splits)

text \<open>A checksum tool for which \<open>subprocess.run\<close> raises, which exits with another code
  or which prints nothing counts as a mismatch.\<close>

lemma after_transfer_tool_failure:
  assumes "hash info \<noteq> []"
    and "staging_path (filename info) = Inr p"
    and "(\<exists>e. sha256sum ev st2 p = RunRaised e)
         \<or> (\<exists>rc out. sha256sum ev st2 p = Exited rc out \<and> (rc = 0 \<longrightarrow> split_ws out = []))"
    and "unlink ev \<lparr>staged = staged st2, trace = trace st2 @ [RunSha256sum p]\<rparr> p = None"
  shows "after_transfer ev st2 info =
           Inr (\<lparr>staged = staged st2 - {p},
                 trace = trace st2 @ [RunSha256sum p, Unlink p]\<rparr>, False)"
  using assms
  by (cases st2)
    (auto simp: after_transfer_def verify_checksum_def bindE_def emit_def Let_def)

text \<open>
  C4. For a resolved artifact with a usable filename and no hash, not found in the
  models tree, a transfer that exits with 0 is reported successful; the state
  returned is the one the transfer left: the trace ends with the transfer (no
  checksum run, no unlink) and the staged files are those the tool wrote.
\<close>

theorem no_hash_no_verification:
  assumes "model_id \<noteq> []"
    and "get_civitai_model_info ev st model_id token = Inr (st1, Some info)"
    and "truthy (filename info)"
    and "hash info = []"
    and "\<not> file_exists_in_models ev st1 (filename info)"
    and "aria2c ev st1 debug_mode (filename info) (transfer_url (download_url info) token)
         = (Exited 0 out, files)"
  shows "download_civitai_model ev debug_mode st model_id model_type token =
           Inr (\<lparr>staged = files,
                 trace = trace st1 @
                   [RunAria2c debug_mode (filename info) (transfer_url (download_url info) token)]\<rparr>,
                True)"
  using assms
  by (simp add: download_civitai_model_def bindE_def after_transfer_def emit_def Let_def)

theorem no_hash_no_verification_witness:
  "download_civitai_model
     (world (answer (JObj [(''files'', JArr [JObj [(''name'', JStr ''a.safetensors'')]])])) (Root []) 0 [])
     False st0 ''111'' ''Checkpoint'' None =
   Inr (\<lparr>staged = {[''workspace'', ''downloads_tmp'', ''a.safetensors'']},
         trace = [HttpGet ''https://civitai.com/api/v1/model-versions/111'' None,
                  RunAria2c False (JStr ''a.safetensors'')
                    ''https://civitai.com/api/download/models/111?type=Model&format=SafeTensor'']\<rparr>,
        True)"
proof -
  let ?ev = "world (answer (JObj [(''files'', JArr [JObj [(''name'', JStr ''a.safetensors'')]])])) (Root []) 0 []"
  let ?info = "\<lparr>filename = JStr ''a.safetensors'', download_url = model_url ''111'', hash = []\<rparr>"
  let ?st1 = "emit (HttpGet (api_url ''111'') None) st0"
  have 1: "''111'' \<noteq> []" by simp
  have 2: "get_civitai_model_info ?ev st0 ''111'' None = Inr (?st1, Some ?info)"
    by (simp add: run_defs)
  have 3: "truthy (filename ?info)" by simp
  have 4: "hash ?info = []" by simp
  have 5: "\<not> file_exists_in_models ?ev ?st1 (filename ?info)"
    by (simp add: run_defs ordinary_pattern_def tree_nodes_def)
  have 6: "aria2c ?ev ?st1 False (filename ?info) (transfer_url (download_url ?info) None)
         = (Exited 0 [], {[''workspace'', ''downloads_tmp'', ''a.safetensors'']})"
    by (simp add: run_defs)
  show ?thesis
    using no_hash_no_verification [OF 1 2 3 4 5 6, of "''Checkpoint''"]
    by (simp add: run_defs)
qed

text \<open>
  After a transfer that exits with 0, for a filename \<open>fname\<close> and a non-empty hash, with
  a checksum tool that prints \<open>digest\<close> first: equal digests (both lower-cased) report
  success and leave the staged files alone; different ones call \<open>unlink\<close> on
  \<open>download_tmp_dir / fname\<close>, and either the exception of \<open>unlink\<close> leaves the
  function or the file is gone (whether or not it was there) and failure is reported.
\<close>

lemma checksum_outcome:
  assumes "model_id \<noteq> []"
    and "get_civitai_model_info ev st model_id token = Inr (st1, Some info)"
    and "filename info = JStr fname" and "fname \<noteq> []"
    and "hash info \<noteq> []"
    and "\<not> file_exists_in_models ev st1 (filename info)"
    and "aria2c ev st1 debug_mode (filename info) (transfer_url (download_url info) token)
         = (Exited 0 out, files)"
    and "st2 = \<lparr>staged = files,
                trace = trace st1 @
                  [RunAria2c debug_mode (filename info) (transfer_url (download_url info) token)]\<rparr>"
    and "staging_path (filename info) = Inr p"
    and "sha256sum ev st2 p = Exited 0 sum_out"
    and "split_ws sum_out = digest # rest"
  shows "download_civitai_model ev debug_mode st model_id model_type token =
           (if lower digest = lower (hash info)
            then Inr (\<lparr>staged = files, trace = trace st2 @ [RunSha256sum p]\<rparr>, True)
            else (case unlink ev \<lparr>staged = files, trace = trace st2 @ [RunSha256sum p]\<rparr> p of
                    Some e \<Rightarrow> Inl e
                  | None \<Rightarrow>
                      Inr (\<lparr>staged = files - {p},
                            trace = trace st2 @ [RunSha256sum p, Unlink p]\<rparr>, False)))"
proof -
  have t: "truthy (filename info)" using assms(3,4) by simp
  have "download_civitai_model ev debug_mode st model_id model_type token = after_transfer ev st2 info"
    using transfer_done [OF assms(1,2) t assms(6,7)] assms(8) by simp
  also have "\<dots> =
           (if lower digest = lower (hash info)
            then Inr (\<lparr>staged = staged st2, trace = trace st2 @ [RunSha256sum p]\<rparr>, True)
            else (case unlink ev \<lparr>staged = staged st2, trace = trace st2 @ [RunSha256sum p]\<rparr> p of
                    Some e \<Rightarrow> Inl e
                  | None \<Rightarrow>
                      Inr (\<lparr>staged = staged st2 - {p},
                            trace = trace st2 @ [RunSha256sum p, Unlink p]\<rparr>, False)))"
    by (rule after_transfer_checked [OF assms(5,9,10,11)])
  finally have d: "download_civitai_model ev debug_mode st model_id model_type token =
           (if lower digest = lower (hash info)
            then Inr (\<lparr>staged = staged st2, trace = trace st2 @ [RunSha256sum p]\<rparr>, True)
            else (case unlink ev \<lparr>staged = staged st2, trace = trace st2 @ [RunSha256sum p]\<rparr> p of
                    Some e \<Rightarrow> Inl e
                  | None \<Rightarrow>
                      Inr (\<lparr>staged = staged st2 - {p},
                            trace = trace st2 @ [RunSha256sum p, Unlink p]\<rparr>, False)))" .
  have f: "staged st2 = files" using assms(8) by simp
  show ?thesis unfolding d f by (rule refl)
qed

lemma mismatch_deletes_and_fails:
  "download_civitai_model
     (world (answer model_111_body) (Root []) 0 ''ffff00  /workspace/downloads_tmp/a.safetensors'')
     False st0 ''111'' ''Checkpoint'' None =
   Inr (\<lparr>staged = {},
         trace = [HttpGet ''https://civitai.com/api/v1/model-versions/111'' None,
                  RunAria2c False (JStr ''a.safetensors'')
                    ''https://civitai.com/api/download/models/111?type=Model&format=SafeTensor'',
                  RunSha256sum [''workspace'', ''downloads_tmp'', ''a.safetensors''],
                  Unlink [''workspace'', ''downloads_tmp'', ''a.safetensors'']]\<rparr>,
        False)
   \<and> download_civitai_model
     (world (answer model_111_body) (Root []) 0 ''aBc123  /workspace/downloads_tmp/a.safetensors'')
     False st0 ''111'' ''Checkpoint'' None =
   Inr (\<lparr>staged = {[''workspace'', ''downloads_tmp'', ''a.safetensors'']},
         trace = [HttpGet ''https://civitai.com/api/v1/model-versions/111'' None,
                  RunAria2c False (JStr ''a.safetensors'')
                    ''https://civitai.com/api/download/models/111?type=Model&format=SafeTensor'',
                  RunSha256sum [''workspace'', ''downloads_tmp'', ''a.safetensors'']]\<rparr>,
        True)"
  by (simp add: run_defs batch_defs)

text \<open>
  C1. When \<open>unlink\<close> raises nothing the claim holds (\<open>checksum_outcome\<close>): a different
  digest removes the file and reports failure, an equal one reports success. But the
  \<open>unlink\<close> of line 196 stands in a \<open>try\<close> that catches only \<open>CalledProcessError\<close>.
  For the filename \<open>.\<close> the path \<open>download_tmp_dir / filename\<close> is the staging
  directory itself; after a transfer that exits with 0 and a different digest,
  \<open>unlink\<close> raises an \<open>OSError\<close> on the directory and the exception leaves
  \<open>download_civitai_model\<close>: nothing is deleted and the artifact is not reported failed.
\<close>

theorem unlink_error_leaves_download:
  "download_civitai_model
     (staging_dir_world
        (answer (JObj [(''files'', JArr [JObj [(''name'', JStr ''.''),
                   (''hashes'', JObj [(''SHA256'', JStr ''abc123'')])]])]))
        (Root []) 0 ''ffff00  /workspace/downloads_tmp'')
     False st0 ''111'' ''Checkpoint'' None = Inl OSError"
  by (simp add: run_defs batch_defs)

section \<open>The batch\<close>

text \<open>The two counters of the loop: \<open>successful\<close> grows by the number of downloads that
  returned \<open>True\<close>, \<open>failed\<close> by the number that returned \<open>False\<close>.\<close>

lemma civitai_loop_tally:
  "civitai_loop ev debug_mode st ids model_type token s f =
     bindE (outcomes ev debug_mode st ids model_type token) (\<lambda>(st1, oks).
       Inr (st1, s + length (filter (\<lambda>ok. ok) oks), f + length (filter (\<lambda>ok. \<not> ok) oks)))"
proof (induction ids arbitrary: st s f)
  case Nil
  show ?case by (simp add: bindE_def)
next
  case (Cons i ids)
  show ?case
  proof (cases "download_civitai_model ev debug_mode st i model_type token")
    case (Inl e)
    then show ?thesis by (simp add: bindE_def)
  next
    case (Inr r)
    obtain st1 ok where r: "r = (st1, ok)" by (cases r)
    show ?thesis
    proof (cases "outcomes ev debug_mode st1 ids model_type token")
      case (Inl e)
      with Inr r Cons.IH [of st1] show ?thesis by (simp add: bindE_def)
    next
      case (Inr q)
      obtain st2 oks where "q = (st2, oks)" by (cases q)
      with Inr \<open>download_civitai_model ev debug_mode st i model_type token = Inr r\<close> r
        Cons.IH [of st1]
      show ?thesis by (simp add: bindE_def)
    qed
  qed
qed

lemma process_tally:
  "process_civitai_downloads ev debug_mode st download_list model_type token =
     (if download_list = [] then Inr (st, True)
      else bindE (outcomes ev debug_mode st (split_ids download_list) model_type token)
             (\<lambda>(st1, oks).
                Inr (emit (LogTally model_type (length (filter (\<lambda>ok. ok) oks))
                             (length (filter (\<lambda>ok. \<not> ok) oks))) st1, True)))"
  by (simp add: process_civitai_downloads_def civitai_loop_tally bindE_def
      split: sum.splits prod.splits)

lemma tally_sum:
  "length (filter (\<lambda>ok. ok) oks) + length (filter (\<lambda>ok. \<not> ok) oks) = length oks"
  by (induction oks) simp_all

lemma outcomes_length:
  "outcomes ev debug_mode st ids model_type token = Inr (st1, oks) \<Longrightarrow> length oks = length ids"
proof (induction ids arbitrary: st oks)
  case Nil
  then show ?case by simp
next
  case (Cons i ids)
  then show ?case
    by (auto simp: bindE_def split: sum.splits prod.splits)
qed

lemma first_file_shaped:
  assumes "shaped_body data"
  shows "first_file data = Inr None \<or> (\<exists>file_info. first_file data = Inr (Some file_info) \<and> shaped_file file_info)"
proof (cases data)
  case (JObj kvs)
  show ?thesis
  proof (cases "map_of kvs ''files''")
    case None
    with JObj show ?thesis by (simp add: first_file_def bindE_def)
  next
    case (Some v)
    with JObj assms show ?thesis
      by (cases v; simp add: first_file_def bindE_def split: list.splits)
  qed
qed (use assms in simp_all)

lemma make_info_shaped:
  assumes "shaped_file file_info"
  shows "\<exists>info. make_info model_id file_info = Inr info \<and> shaped_name (filename info)"
proof (cases file_info)
  case (JObj kvs)
  have n: "shaped_name (case map_of kvs ''name'' of None \<Rightarrow> JNull | Some v \<Rightarrow> v)"
    using assms JObj by (simp split: option.splits)
  have "\<exists>h. bindE (py_get (case map_of kvs ''hashes'' of None \<Rightarrow> JObj [] | Some v \<Rightarrow> v) ''SHA256'' (JStr []))
              py_lower = Inr h"
  proof (cases "map_of kvs ''hashes''")
    case None
    then show ?thesis by (simp add: bindE_def)
  next
    case (Some hs)
    with assms JObj have "shaped_hashes hs" by simp
    then show ?thesis using Some
      by (cases hs; simp add: bindE_def split: option.splits json.splits)
  qed
  then obtain h where
    "bindE (py_get (case map_of kvs ''hashes'' of None \<Rightarrow> JObj [] | Some v \<Rightarrow> v) ''SHA256'' (JStr []))
       py_lower = Inr h" ..
  then have "make_info model_id file_info =
               Inr \<lparr>filename = (case map_of kvs ''name'' of None \<Rightarrow> JNull | Some v \<Rightarrow> v),
                    download_url = model_url model_id, hash = h\<rparr>"
    using JObj by (auto simp: make_info_def bindE_def split: sum.splits)
  with n show ?thesis by simp
qed (use assms in simp_all)

lemma resolve_anticipated:
  assumes "anticipated ev"
  shows "\<exists>st1 r. get_civitai_model_info ev st model_id token = Inr (st1, r)
           \<and> (case r of None \<Rightarrow> True | Some info \<Rightarrow> shaped_name (filename info))"
proof -
  let ?r = "http_get ev st (api_url model_id) (auth_header token)"
  have sh: "shaped_response ?r" using assms by (simp add: anticipated_def)
  show ?thesis
  proof (cases ?r)
    case RequestFailed
    then show ?thesis by (simp add: get_civitai_model_info_def)
  next
    case (GetRaised e)
    with sh show ?thesis by simp
  next
    case (Response status body)
    show ?thesis
    proof (cases "status = 200")
      case False
      with Response show ?thesis by (simp add: get_civitai_model_info_def Let_def)
    next
      case True
      show ?thesis
      proof (cases body)
        case NotJson
        with Response True show ?thesis by (simp add: get_civitai_model_info_def Let_def)
      next
        case (DecodeRaised e)
        with sh Response True show ?thesis by simp
      next
        case (Json data)
        with sh Response True have b: "shaped_body data" by simp
        from first_file_shaped [OF b] show ?thesis
        proof
          assume "first_file data = Inr None"
          with Response True Json show ?thesis
            by (simp add: get_civitai_model_info_def Let_def bindE_def)
        next
          assume "\<exists>file_info. first_file data = Inr (Some file_info) \<and> shaped_file file_info"
          then obtain file_info where f: "first_file data = Inr (Some file_info)"
            and s: "shaped_file file_info" by blast
          from make_info_shaped [OF s, of model_id] obtain info where
            "make_info model_id file_info = Inr info" and "shaped_name (filename info)" by blast
          with Response True Json f show ?thesis
            by (simp add: get_civitai_model_info_def Let_def bindE_def)
        qed
      qed
    qed
  qed
qed

lemma after_transfer_returns:
  assumes "shaped_name (filename info)" and "truthy (filename info)"
    and "\<forall>st p. unlink ev st p = None"
  shows "\<exists>st' ok. after_transfer ev st info = Inr (st', ok)"
proof -
  from assms obtain s where "filename info = JStr s" by (cases "filename info") simp_all
  then show ?thesis using assms(3)
    by (auto simp: after_transfer_def staging_path_def bindE_def split: prod.splits)
qed

lemma download_anticipated:
  assumes "anticipated ev"
  shows "\<exists>st' ok. download_civitai_model ev debug_mode st model_id model_type token = Inr (st', ok)"
proof (cases "model_id = []")
  case True
  then show ?thesis by (auto simp: download_civitai_model_def)
next
  case False
  from resolve_anticipated [OF assms, of st model_id token] obtain st1 r where
    g: "get_civitai_model_info ev st model_id token = Inr (st1, r)"
    and n: "case r of None \<Rightarrow> True | Some info \<Rightarrow> shaped_name (filename info)" by blast
  show ?thesis
  proof (cases r)
    case None
    with False g show ?thesis by (auto simp: download_civitai_model_def bindE_def)
  next
    case (Some info)
    with n have sn: "shaped_name (filename info)" by simp
    let ?a = "aria2c ev st1 debug_mode (filename info) (transfer_url (download_url info) token)"
    have l: "has_run (fst ?a)" using assms by (simp add: anticipated_def)
    have u: "\<forall>st p. unlink ev st p = None" using assms by (simp add: anticipated_def)
    show ?thesis
    proof (cases "truthy (filename info) \<and> \<not> file_exists_in_models ev st1 (filename info)")
      case False
      with \<open>model_id \<noteq> []\<close> g Some show ?thesis
        by (auto simp: download_civitai_model_def bindE_def)
    next
      case True
      obtain p files where a: "?a = (p, files)" by (cases ?a)
      with l obtain rc out where p: "p = Exited rc out" by (cases p) simp_all
      show ?thesis
      proof (cases "rc = 0")
        case False
        with \<open>model_id \<noteq> []\<close> g Some True a p show ?thesis
          by (auto simp: download_civitai_model_def bindE_def Let_def)
      next
        case rc0: True
        from after_transfer_returns [OF sn _ u] True obtain st' ok where
          "after_transfer ev
             ((emit (RunAria2c debug_mode (filename info) (transfer_url (download_url info) token)) st1)
                \<lparr>staged := files\<rparr>) info = Inr (st', ok)" by blast
        with \<open>model_id \<noteq> []\<close> g Some True a p rc0 show ?thesis
          by (auto simp: download_civitai_model_def bindE_def Let_def)
      qed
    qed
  qed
qed

lemma civitai_loop_anticipated:
  assumes "anticipated ev"
  shows "\<exists>st' s' f'. civitai_loop ev debug_mode st ids model_type token s f = Inr (st', s', f')"
proof (induction ids arbitrary: st s f)
  case Nil
  show ?case by simp
next
  case (Cons i ids)
  from download_anticipated [OF assms, of debug_mode st i model_type token] obtain st1 ok where
    d: "download_civitai_model ev debug_mode st i model_type token = Inr (st1, ok)" by blast
  show ?case
  proof (cases ok)
    case True
    with d Cons.IH [of st1 "s + 1" f] show ?thesis by (simp add: bindE_def)
  next
    case False
    with d Cons.IH [of st1 s "f + 1"] show ?thesis by (simp add: bindE_def)
  qed
qed

lemma process_anticipated:
  assumes "anticipated ev"
  shows "\<exists>st'. process_civitai_downloads ev debug_mode st download_list model_type token = Inr (st', True)"
proof -
  from civitai_loop_anticipated [OF assms, of debug_mode st "split_ids download_list" model_type token 0 0]
  show ?thesis by (auto simp: process_civitai_downloads_def bindE_def)
qed

lemma hf_loop_launches:
  assumes "hf_launches ev"
  shows "\<exists>st'. hf_loop ev debug_mode st repos token = Inr st'"
proof (induction repos arbitrary: st)
  case Nil
  show ?case by simp
next
  case (Cons r repos)
  let ?h = "hf_cli ev st debug_mode r (hf_token token)"
  obtain p files where h: "?h = (p, files)" by (cases ?h)
  have "has_run (fst ?h)" using assms by (simp add: hf_launches_def)
  with h obtain rc out where p: "p = Exited rc out" by (cases p) simp_all
  show ?case using h p Cons.IH by (cases debug_mode; cases "rc = 0"; simp add: Let_def)
qed

lemma hf_repos_completes:
  assumes "hf_launches ev"
  shows "\<exists>st'. download_hf_repos ev debug_mode st repos_list token = Inr (st', True)"
  using hf_loop_launches [OF assms, of debug_mode st "split_ids repos_list" token]
  by (auto simp: download_hf_repos_def bindE_def)

text \<open>
  C10. Whenever \<open>process_civitai_downloads\<close> returns, each identifier kept by
  \<open>split_ids\<close> has been counted once: \<open>successful\<close> is the number of per-artifact
  downloads that returned \<open>True\<close> (a skipped, present artifact among them), \<open>failed\<close>
  the number that returned \<open>False\<close> (\<open>process_tally\<close>), and the two add up to the
  number of identifiers (\<open>tally_sum\<close>, \<open>outcomes_length\<close>). But a list is not always
  processed to the end: for \<open>111, ,222\<close> with a failed request for 111 and the body
  \<open>null\<close> for 222, the download of 111 returns \<open>False\<close>, then the \<open>TypeError\<close> of
  C3 leaves the loop, and neither identifier is counted in a tally: none is logged.
\<close>

theorem tally_lost_when_batch_aborts:
  "download_civitai_model (world (answer_only ''222'' JNull) (Root []) 0 []) False st0
     ''111'' ''Checkpoint'' None =
   Inr (\<lparr>staged = {}, trace = [HttpGet ''https://civitai.com/api/v1/model-versions/111'' None]\<rparr>,
        False)
   \<and> process_civitai_downloads (world (answer_only ''222'' JNull) (Root []) 0 []) False st0
       ''111, ,222'' ''Checkpoint'' None = Inl TypeError"
  by (simp add: batch_defs run_defs)

text \<open>
  C6, as stated, fails: the function returns \<open>True\<close>, not the pair of counts. The run
  over \<open>111,222\<close> (tally 1 and 1) and the run over \<open>222\<close> (tally 0 and 1) return the
  same value; the counts appear only in the logged line.
\<close>

theorem batch_return_value_is_not_the_tally:
  "process_civitai_downloads
     (world (answer_only ''111'' model_111_body) (Root []) 0
        ''abc123  /workspace/downloads_tmp/a.safetensors'')
     False st0 ''111,222'' ''Checkpoint'' None =
   Inr (\<lparr>staged = {[''workspace'', ''downloads_tmp'', ''a.safetensors'']},
         trace = [HttpGet ''https://civitai.com/api/v1/model-versions/111'' None,
                  RunAria2c False (JStr ''a.safetensors'')
                    ''https://civitai.com/api/download/models/111?type=Model&format=SafeTensor'',
                  RunSha256sum [''workspace'', ''downloads_tmp'', ''a.safetensors''],
                  HttpGet ''https://civitai.com/api/v1/model-versions/222'' None,
                  LogTally ''Checkpoint'' 1 1]\<rparr>,
        True)
   \<and> process_civitai_downloads
     (world (answer_only ''111'' model_111_body) (Root []) 0
        ''abc123  /workspace/downloads_tmp/a.safetensors'')
     False st0 ''222'' ''Checkpoint'' None =
   Inr (\<lparr>staged = {},
         trace = [HttpGet ''https://civitai.com/api/v1/model-versions/222'' None,
                  LogTally ''Checkpoint'' 0 1]\<rparr>,
        True)"
  by (simp add: batch_defs run_defs)

text \<open>
  C6, amended. For the empty list \<open>process_civitai_downloads\<close> returns \<open>True\<close> at once.
  For any other list it runs the per-artifact downloads of the identifiers in order;
  unless an exception leaves one of them, it then logs the tally and returns \<open>True\<close>,
  where the first count of the tally is the number of downloads that returned \<open>True\<close>
  and the second the number that returned \<open>False\<close>. For the list \<open>111,222\<close>, when
  resolution gives 111 a filename and a hash, the file is not in the models tree, the
  transfer exits with 0 and the checksum tool prints the hash, and resolution gives
  \<open>None\<close> for 222: the calls made are the metadata request for 111, its transfer, its
  checksum, and the metadata request for 222; the logged tally is 1 successful, 1 failed,
  and \<open>True\<close> is returned.
\<close>

theorem batch_returns_true_logs_tally:
  "process_civitai_downloads ev debug_mode st download_list model_type token =
     (if download_list = [] then Inr (st, True)
      else bindE (outcomes ev debug_mode st (split_ids download_list) model_type token)
             (\<lambda>(st', oks).
                Inr (emit (LogTally model_type (length (filter (\<lambda>ok. ok) oks))
                             (length (filter (\<lambda>ok. \<not> ok) oks))) st', True)))
   \<and> (get_civitai_model_info ev st ''111'' token = Inr (st1, Some info)
        \<and> filename info = JStr fname \<and> fname \<noteq> []
        \<and> hash info \<noteq> []
        \<and> \<not> file_exists_in_models ev st1 (filename info)
        \<and> aria2c ev st1 debug_mode (filename info) (transfer_url (download_url info) token)
            = (Exited 0 out, files)
        \<and> st2 = \<lparr>staged = files,
                   trace = trace st1 @
                     [RunAria2c debug_mode (filename info) (transfer_url (download_url info) token)]\<rparr>
        \<and> staging_path (filename info) = Inr p
        \<and> sha256sum ev st2 p = Exited 0 sum_out
        \<and> split_ws sum_out = digest # rest
        \<and> lower digest = lower (hash info)
        \<and> get_civitai_model_info ev \<lparr>staged = files, trace = trace st2 @ [RunSha256sum p]\<rparr>
              ''222'' token = Inr (st4, None)
      \<longrightarrow> process_civitai_downloads ev debug_mode st ''111,222'' model_type token =
            Inr (\<lparr>staged = files,
                  trace = trace st @
                    [HttpGet (api_url ''111'') (auth_header token),
                     RunAria2c debug_mode (filename info) (transfer_url (download_url info) token),
                     RunSha256sum p,
                     HttpGet (api_url ''222'') (auth_header token),
                     LogTally model_type 1 1]\<rparr>,
                 True))"
proof (intro conjI impI)
  show "process_civitai_downloads ev debug_mode st download_list model_type token =
     (if download_list = [] then Inr (st, True)
      else bindE (outcomes ev debug_mode st (split_ids download_list) model_type token)
             (\<lambda>(st', oks).
                Inr (emit (LogTally model_type (length (filter (\<lambda>ok. ok) oks))
                             (length (filter (\<lambda>ok. \<not> ok) oks))) st', True)))"
    by (rule process_tally)
next
  assume a: "get_civitai_model_info ev st ''111'' token = Inr (st1, Some info)
        \<and> filename info = JStr fname \<and> fname \<noteq> []
        \<and> hash info \<noteq> []
        \<and> \<not> file_exists_in_models ev st1 (filename info)
        \<and> aria2c ev st1 debug_mode (filename info) (transfer_url (download_url info) token)
            = (Exited 0 out, files)
        \<and> st2 = \<lparr>staged = files,
                   trace = trace st1 @
                     [RunAria2c debug_mode (filename info) (transfer_url (download_url info) token)]\<rparr>
        \<and> staging_path (filename info) = Inr p
        \<and> sha256sum ev st2 p = Exited 0 sum_out
        \<and> split_ws sum_out = digest # rest
        \<and> lower digest = lower (hash info)
        \<and> get_civitai_model_info ev \<lparr>staged = files, trace = trace st2 @ [RunSha256sum p]\<rparr>
              ''222'' token = Inr (st4, None)"
  let ?st3 = "\<lparr>staged = files, trace = trace st2 @ [RunSha256sum p]\<rparr>"
  from a have r1: "get_civitai_model_info ev st ''111'' token = Inr (st1, Some info)"
    and n: "filename info = JStr fname" "fname \<noteq> []"
    and h: "hash info \<noteq> []"
    and ab: "\<not> file_exists_in_models ev st1 (filename info)"
    and x: "aria2c ev st1 debug_mode (filename info) (transfer_url (download_url info) token)
            = (Exited 0 out, files)"
    and s2: "st2 = \<lparr>staged = files,
                   trace = trace st1 @
                     [RunAria2c debug_mode (filename info) (transfer_url (download_url info) token)]\<rparr>"
    and sp: "staging_path (filename info) = Inr p"
    and su: "sha256sum ev st2 p = Exited 0 sum_out"
    and sw: "split_ws sum_out = digest # rest"
    and eq: "lower digest = lower (hash info)"
    and r2: "get_civitai_model_info ev ?st3 ''222'' token = Inr (st4, None)"
    by blast+
  have ids: "split_ids ''111,222'' = [''111'', ''222'']"
    by (simp add: split_ids_def split_comma_def strip_def is_space_def)
  have t: "truthy (filename info)" using n by simp
  have "download_civitai_model ev debug_mode st ''111'' model_type token = after_transfer ev st2 info"
    using transfer_done [OF _ r1 t ab x] s2 by simp
  also have "\<dots> = Inr (?st3, True)"
    using after_transfer_checked [OF h sp su sw] s2 eq by simp
  finally have d1: "download_civitai_model ev debug_mode st ''111'' model_type token = Inr (?st3, True)" .
  have d2: "download_civitai_model ev debug_mode ?st3 ''222'' model_type token = Inr (st4, False)"
    using resolve_none_fails [OF _ r2] by simp
  have s1: "trace st1 = trace st @ [HttpGet (api_url ''111'') (auth_header token)]"
    using resolve_state [OF r1] by (simp add: emit_def)
  have s4: "st4 = \<lparr>staged = files,
                   trace = trace st2 @ [RunSha256sum p, HttpGet (api_url ''222'') (auth_header token)]\<rparr>"
    using resolve_state [OF r2] by (simp add: emit_def)
  show "process_civitai_downloads ev debug_mode st ''111,222'' model_type token =
            Inr (\<lparr>staged = files,
                  trace = trace st @
                    [HttpGet (api_url ''111'') (auth_header token),
                     RunAria2c debug_mode (filename info) (transfer_url (download_url info) token),
                     RunSha256sum p,
                     HttpGet (api_url ''222'') (auth_header token),
                     LogTally model_type 1 1]\<rparr>,
                 True)"
    using d1 d2 s1 s4 s2
    by (simp add: process_civitai_downloads_def ids bindE_def emit_def)
qed

theorem batch_returns_true_logs_tally_witness:
  "process_civitai_downloads
     (world (answer_only ''111'' model_111_body) (Root []) 0
        ''ABC123  /workspace/downloads_tmp/a.safetensors'')
     True st0 ''111,222'' ''Checkpoint'' (Some ''key'') =
   Inr (\<lparr>staged = {[''workspace'', ''downloads_tmp'', ''a.safetensors'']},
         trace = [HttpGet ''https://civitai.com/api/v1/model-versions/111'' (Some ''Bearer key''),
                  RunAria2c True (JStr ''a.safetensors'')
                    ''https://civitai.com/api/download/models/111?type=Model&format=SafeTensor&token=key'',
                  RunSha256sum [''workspace'', ''downloads_tmp'', ''a.safetensors''],
                  HttpGet ''https://civitai.com/api/v1/model-versions/222'' (Some ''Bearer key''),
                  LogTally ''Checkpoint'' 1 1]\<rparr>,
        True)
   \<and> outcomes
       (world (answer_only ''111'' model_111_body) (Root []) 0
          ''ABC123  /workspace/downloads_tmp/a.safetensors'')
       True st0 (split_ids ''222'') ''Checkpoint'' (Some ''key'') =
     Inr (\<lparr>staged = {},
           trace = [HttpGet ''https://civitai.com/api/v1/model-versions/222'' (Some ''Bearer key'')]\<rparr>,
          [False])
   \<and> process_civitai_downloads
       (world (answer_only ''111'' model_111_body) (Root []) 0
          ''ABC123  /workspace/downloads_tmp/a.safetensors'')
       True st0 ''222'' ''Checkpoint'' (Some ''key'') =
     Inr (\<lparr>staged = {},
           trace = [HttpGet ''https://civitai.com/api/v1/model-versions/222'' (Some ''Bearer key''),
                    LogTally ''Checkpoint'' 0 1]\<rparr>,
          True)"
proof -
  let ?ev = "world (answer_only ''111'' model_111_body) (Root []) 0
               ''ABC123  /workspace/downloads_tmp/a.safetensors''"
  let ?tok = "Some ''key''"
  let ?info = "\<lparr>filename = JStr ''a.safetensors'', download_url = model_url ''111'', hash = ''abc123''\<rparr>"
  let ?st1 = "emit (HttpGet (api_url ''111'') (auth_header ?tok)) st0"
  let ?p = "[''workspace'', ''downloads_tmp'', ''a.safetensors'']"
  let ?st2 = "\<lparr>staged = {?p}, trace = trace ?st1 @
                  [RunAria2c True (filename ?info) (transfer_url (download_url ?info) ?tok)]\<rparr>"
  let ?st3 = "\<lparr>staged = {?p}, trace = trace ?st2 @ [RunSha256sum ?p]\<rparr>"
  have h: "get_civitai_model_info ?ev st0 ''111'' ?tok = Inr (?st1, Some ?info)
        \<and> filename ?info = JStr ''a.safetensors'' \<and> ''a.safetensors'' \<noteq> []
        \<and> hash ?info \<noteq> []
        \<and> \<not> file_exists_in_models ?ev ?st1 (filename ?info)
        \<and> aria2c ?ev ?st1 True (filename ?info) (transfer_url (download_url ?info) ?tok)
            = (Exited 0 [], {?p})
        \<and> ?st2 = \<lparr>staged = {?p},
                   trace = trace ?st1 @
                     [RunAria2c True (filename ?info) (transfer_url (download_url ?info) ?tok)]\<rparr>
        \<and> staging_path (filename ?info) = Inr ?p
        \<and> sha256sum ?ev ?st2 ?p = Exited 0 ''ABC123  /workspace/downloads_tmp/a.safetensors''
        \<and> split_ws ''ABC123  /workspace/downloads_tmp/a.safetensors''
             = ''ABC123'' # [''/workspace/downloads_tmp/a.safetensors'']
        \<and> lower ''ABC123'' = lower (hash ?info)
        \<and> get_civitai_model_info ?ev \<lparr>staged = {?p}, trace = trace ?st2 @ [RunSha256sum ?p]\<rparr>
              ''222'' ?tok = Inr (emit (HttpGet (api_url ''222'') (auth_header ?tok)) ?st3, None)"
    by (simp add: batch_defs run_defs)
  have o: "outcomes ?ev True st0 (split_ids ''222'') ''Checkpoint'' ?tok =
             Inr (\<lparr>staged = {},
                   trace = [HttpGet ''https://civitai.com/api/v1/model-versions/222'' (Some ''Bearer key'')]\<rparr>,
                  [False])"
    by (simp add: batch_defs run_defs)
  have ne: "''222'' \<noteq> []" by simp
  from batch_returns_true_logs_tally
    [of ?ev True st0 "''222''" "''Checkpoint''" ?tok ?st1 ?info "''a.safetensors''" "[]" "{?p}"
      ?st2 ?p "''ABC123  /workspace/downloads_tmp/a.safetensors''" "''ABC123''"
      "[''/workspace/downloads_tmp/a.safetensors'']"
      "emit (HttpGet (api_url ''222'') (auth_header ?tok)) ?st3"]
  have g: "process_civitai_downloads ?ev True st0 ''222'' ''Checkpoint'' ?tok =
             bindE (outcomes ?ev True st0 (split_ids ''222'') ''Checkpoint'' ?tok)
               (\<lambda>(st', oks).
                  Inr (emit (LogTally ''Checkpoint'' (length (filter (\<lambda>ok. ok) oks))
                               (length (filter (\<lambda>ok. \<not> ok) oks))) st', True))"
    and sc: "process_civitai_downloads ?ev True st0 ''111,222'' ''Checkpoint'' ?tok =
            Inr (\<lparr>staged = {?p},
                  trace = trace st0 @
                    [HttpGet (api_url ''111'') (auth_header ?tok),
                     RunAria2c True (filename ?info) (transfer_url (download_url ?info) ?tok),
                     RunSha256sum ?p,
                     HttpGet (api_url ''222'') (auth_header ?tok),
                     LogTally ''Checkpoint'' 1 1]\<rparr>,
                 True)"
    using h ne by simp_all
  from g o have g': "process_civitai_downloads ?ev True st0 ''222'' ''Checkpoint'' ?tok =
     Inr (\<lparr>staged = {},
           trace = [HttpGet ''https://civitai.com/api/v1/model-versions/222'' (Some ''Bearer key''),
                    LogTally ''Checkpoint'' 0 1]\<rparr>,
          True)"
    by (simp add: bindE_def emit_def)
  from sc have sc': "process_civitai_downloads ?ev True st0 ''111,222'' ''Checkpoint'' ?tok =
   Inr (\<lparr>staged = {?p},
         trace = [HttpGet ''https://civitai.com/api/v1/model-versions/111'' (Some ''Bearer key''),
                  RunAria2c True (JStr ''a.safetensors'')
                    ''https://civitai.com/api/download/models/111?type=Model&format=SafeTensor&token=key'',
                  RunSha256sum ?p,
                  HttpGet ''https://civitai.com/api/v1/model-versions/222'' (Some ''Bearer key''),
                  LogTally ''Checkpoint'' 1 1]\<rparr>,
        True)"
    by (simp add: run_defs)
  from sc' o g' show ?thesis by simp
qed

text \<open>
  C7. In an anticipated environment every batch returns \<open>True\<close>
  (\<open>process_anticipated\<close>, \<open>hf_repos_completes\<close>): failed requests, error statuses,
  missing files lists, non-zero exits and checksum mismatches are counted and the loop
  goes on. A response of another shape is a failure of one artifact too, and it stops
  the batch: with the body \<open>null\<close> for 111 the \<open>TypeError\<close> of C3 leaves
  \<open>process_civitai_downloads\<close>; 222 is not processed and no tally is logged.
\<close>

theorem malformed_response_aborts_batch:
  "process_civitai_downloads (world (answer_only ''111'' JNull) (Root []) 0 []) False st0
     ''111,222'' ''Checkpoint'' None = Inl TypeError"
  by (simp add: batch_defs run_defs)

end
